theory Spec2Isabelle
  imports Complex_Main "HOL-Library.AList"
begin

section \<open>JavaScript values used by \<^verbatim>\<open>spotify.js\<close>\<close>

text \<open>
  The feature computation of \<^verbatim>\<open>getRecommendationsByMoodAndAge\<close> (lines 104 to 128 of
  \<^verbatim>\<open>src/spotify.js\<close>) reads three module-level object literals, mutates the object that
  \<^verbatim>\<open>features\<close> refers to, and builds the argument of \<^verbatim>\<open>URLSearchParams\<close>.  The token
  request before it and the \<^verbatim>\<open>fetch\<close> after it are input/output and are not part of this
  development.

  A JavaScript number is modelled as an exact real or \<^verbatim>\<open>NaN\<close>: the rounding error of
  IEEE double addition, the infinities and the negative zero are not represented.
\<close>

datatype jsnum = Finite real | NaN

fun plus_num :: "jsnum \<Rightarrow> jsnum \<Rightarrow> jsnum" where
  "plus_num (Finite a) (Finite b) = Finite (a + b)"
| "plus_num _ _ = NaN"

fun Math_max :: "jsnum \<Rightarrow> jsnum \<Rightarrow> jsnum" where
  "Math_max (Finite a) (Finite b) = Finite (max a b)"
| "Math_max _ _ = NaN"

fun Math_min :: "jsnum \<Rightarrow> jsnum \<Rightarrow> jsnum" where
  "Math_min (Finite a) (Finite b) = Finite (min a b)"
| "Math_min _ _ = NaN"

text \<open>\<^verbatim>\<open>Math.round\<close>: the nearest integer, a tie going up.\<close>

fun Math_round :: "jsnum \<Rightarrow> jsnum" where
  "Math_round (Finite a) = Finite (of_int \<lfloor>a + 1 / 2\<rfloor>)"
| "Math_round NaN = NaN"

text \<open>
  The objects the function can reach.  Each row of \<^verbatim>\<open>MOOD_FEATURES\<close> and of
  \<^verbatim>\<open>AGE_ADJUSTMENTS\<close> is an object of its own, as is the \<^verbatim>\<open>{}\<close> of line 107.  The
  three tables are object literals, so a key they do not own is looked up on
  \<^verbatim>\<open>Object.prototype\<close>: that brings in the built-in objects.
\<close>

datatype obj =
    FeaturesRow string
  | AdjustRow string
  | EmptyLiteral
  | ObjectCtor
  | ObjectPrototype
  | FunctionPrototype
  | NumberPrototype
  | ProtoMethod string

datatype jsval = Undefined | Number jsnum | Ref obj

text \<open>The value of \<^verbatim>\<open>genres\<close>: a string, or whatever the lookup inherited.\<close>

datatype genres_val = Genres string | NotAString jsval

text \<open>
  The store: for every object its own enumerable data properties, in insertion order
  (the order of \<^verbatim>\<open>Object.keys\<close>).  All of them hold numbers, since the only writes of
  the program are the results of \<^verbatim>\<open>Math.max\<close>.
\<close>

type_synonym props = "(string \<times> jsnum) list"
type_synonym heap = "obj \<Rightarrow> props"

datatype error = TypeError

section \<open>The module-level tables\<close>

definition MOOD_FEATURES :: "(string \<times> props) list" where
  "MOOD_FEATURES =
    [(''happy'', [(''valence'', Finite 0.8), (''energy'', Finite 0.75),
        (''danceability'', Finite 0.85), (''acousticness'', Finite 0.15), (''tempo'', Finite 120)]),
     (''energetic'', [(''valence'', Finite 0.85), (''energy'', Finite 0.85),
        (''danceability'', Finite 0.8), (''acousticness'', Finite 0.1), (''tempo'', Finite 130)]),
     (''calm'', [(''valence'', Finite 0.3), (''energy'', Finite 0.2),
        (''danceability'', Finite 0.3), (''acousticness'', Finite 0.7), (''tempo'', Finite 70)]),
     (''sad'', [(''valence'', Finite 0.2), (''energy'', Finite 0.25),
        (''danceability'', Finite 0.25), (''acousticness'', Finite 0.8), (''tempo'', Finite 60)]),
     (''stressed'', [(''valence'', Finite 0.35), (''energy'', Finite 0.3),
        (''danceability'', Finite 0.4), (''acousticness'', Finite 0.6), (''tempo'', Finite 75)])]"

definition AGE_ADJUSTMENTS :: "(string \<times> props) list" where
  "AGE_ADJUSTMENTS =
    [(''13-17'', [(''danceability'', Finite 0.05), (''tempo'', Finite 10), (''energy'', Finite 0.03)]),
     (''18-25'', [(''danceability'', Finite 0.02), (''tempo'', Finite 0), (''energy'', Finite 0)]),
     (''26-35'', [(''acousticness'', Finite 0.03), (''tempo'', Finite (- 5))]),
     (''36-50'', [(''acousticness'', Finite 0.05), (''tempo'', Finite (- 10)),
        (''energy'', Finite (- 0.05))]),
     (''50+'', [(''acousticness'', Finite 0.08), (''tempo'', Finite (- 15)),
        (''energy'', Finite (- 0.1))])]"

definition MOOD_GENRES :: "(string \<times> string) list" where
  "MOOD_GENRES =
    [(''happy'', ''pop,indie-pop,electro-pop''),
     (''energetic'', ''dance,electronic,hip-hop''),
     (''calm'', ''ambient,indie-folk,acoustic''),
     (''sad'', ''indie,alternative,folk''),
     (''stressed'', ''lo-fi,chill-pop,singer-songwriter'')]"

text \<open>The store as the module leaves it once loaded: the rows hold the literals.\<close>

definition init :: heap where
  "init x =
    (case x of
       FeaturesRow k \<Rightarrow> (case map_of MOOD_FEATURES k of Some ps \<Rightarrow> ps | None \<Rightarrow> [])
     | AdjustRow k \<Rightarrow> (case map_of AGE_ADJUSTMENTS k of Some ps \<Rightarrow> ps | None \<Rightarrow> [])
     | _ \<Rightarrow> [])"

section \<open>Property lookup\<close>

text \<open>
  The own properties of \<^verbatim>\<open>Object.prototype\<close> that the language defines (none of them
  enumerable).  \<^verbatim>\<open>__proto__\<close> is an accessor: read through an object literal it returns
  that literal's prototype, \<^verbatim>\<open>Object.prototype\<close> itself.
\<close>

definition Object_prototype_own :: "(string \<times> jsval) list" where
  "Object_prototype_own =
    [(''constructor'', Ref ObjectCtor),
     (''__defineGetter__'', Ref (ProtoMethod ''__defineGetter__'')),
     (''__defineSetter__'', Ref (ProtoMethod ''__defineSetter__'')),
     (''hasOwnProperty'', Ref (ProtoMethod ''hasOwnProperty'')),
     (''__lookupGetter__'', Ref (ProtoMethod ''__lookupGetter__'')),
     (''__lookupSetter__'', Ref (ProtoMethod ''__lookupSetter__'')),
     (''isPrototypeOf'', Ref (ProtoMethod ''isPrototypeOf'')),
     (''propertyIsEnumerable'', Ref (ProtoMethod ''propertyIsEnumerable'')),
     (''toString'', Ref (ProtoMethod ''toString'')),
     (''valueOf'', Ref (ProtoMethod ''valueOf'')),
     (''__proto__'', Ref ObjectPrototype),
     (''toLocaleString'', Ref (ProtoMethod ''toLocaleString''))]"

text \<open>\<^verbatim>\<open>T[k]\<close> for a table \<^verbatim>\<open>T\<close> that does not own \<^verbatim>\<open>k\<close>.\<close>

definition inherited :: "heap \<Rightarrow> string \<Rightarrow> jsval" where
  "inherited h k =
    (case map_of (h ObjectPrototype) k of
       Some n \<Rightarrow> Number n
     | None \<Rightarrow> (case map_of Object_prototype_own k of Some v \<Rightarrow> v | None \<Rightarrow> Undefined))"

definition get_MOOD_FEATURES :: "heap \<Rightarrow> string \<Rightarrow> jsval" where
  "get_MOOD_FEATURES h k =
    (case map_of MOOD_FEATURES k of Some _ \<Rightarrow> Ref (FeaturesRow k) | None \<Rightarrow> inherited h k)"

definition get_AGE_ADJUSTMENTS :: "heap \<Rightarrow> string \<Rightarrow> jsval" where
  "get_AGE_ADJUSTMENTS h k =
    (case map_of AGE_ADJUSTMENTS k of Some _ \<Rightarrow> Ref (AdjustRow k) | None \<Rightarrow> inherited h k)"

definition get_MOOD_GENRES :: "heap \<Rightarrow> string \<Rightarrow> genres_val" where
  "get_MOOD_GENRES h k =
    (case map_of MOOD_GENRES k of Some s \<Rightarrow> Genres s | None \<Rightarrow> NotAString (inherited h k))"

text \<open>Truthiness, for the \<^verbatim>\<open>||\<close> of lines 104, 107 and 117.\<close>

fun truthy :: "jsval \<Rightarrow> bool" where
  "truthy Undefined = False"
| "truthy (Number NaN) = False"
| "truthy (Number (Finite a)) = (a \<noteq> 0)"
| "truthy (Ref _) = True"

definition js_or :: "jsval \<Rightarrow> jsval \<Rightarrow> jsval" where
  "js_or a b = (if truthy a then a else b)"

fun genres_or :: "genres_val \<Rightarrow> string \<Rightarrow> genres_val" where
  "genres_or (Genres s) d = (if s = [] then Genres d else Genres s)"
| "genres_or (NotAString v) d = (if truthy v then NotAString v else Genres d)"

text \<open>
  The objects a property read visits: the receiver, then its prototypes.  A number is a
  primitive and has no own property.
\<close>

fun prototypes :: "obj \<Rightarrow> obj list" where
  "prototypes ObjectPrototype = []"
| "prototypes FunctionPrototype = [ObjectPrototype]"
| "prototypes ObjectCtor = [FunctionPrototype, ObjectPrototype]"
| "prototypes (ProtoMethod _) = [FunctionPrototype, ObjectPrototype]"
| "prototypes _ = [ObjectPrototype]"

fun lookup_chain :: "heap \<Rightarrow> obj list \<Rightarrow> string \<Rightarrow> jsnum option" where
  "lookup_chain h [] k = None"
| "lookup_chain h (x # xs) k =
    (case map_of (h x) k of Some n \<Rightarrow> Some n | None \<Rightarrow> lookup_chain h xs k)"

text \<open>
  \<^verbatim>\<open>v[k]\<close> for the keys this function reads (the five feature names and the keys of an
  adjustment record): \<open>None\<close> is \<^verbatim>\<open>undefined\<close>.  No built-in object has a
  non-enumerable property of such a name.
\<close>

fun field :: "heap \<Rightarrow> jsval \<Rightarrow> string \<Rightarrow> jsnum option" where
  "field h (Ref x) k = lookup_chain h (x # prototypes x) k"
| "field h (Number _) k = lookup_chain h [NumberPrototype, ObjectPrototype] k"
| "field h Undefined k = None"

text \<open>An operand of \<^verbatim>\<open>+\<close> or of \<^verbatim>\<open>Math.round\<close>: \<^verbatim>\<open>undefined\<close> converts to \<^verbatim>\<open>NaN\<close>.\<close>

fun ToNumber :: "jsnum option \<Rightarrow> jsnum" where
  "ToNumber None = NaN"
| "ToNumber (Some n) = n"

text \<open>
  \<^verbatim>\<open>x.hasOwnProperty(k)\<close>, on the enumerable own properties.  The non-enumerable own
  properties of the built-in objects are left out of the test: their names are never keys
  of an adjustment record.
\<close>

definition hasOwnProperty :: "heap \<Rightarrow> obj \<Rightarrow> string \<Rightarrow> bool" where
  "hasOwnProperty h x k = (map_of (h x) k \<noteq> None)"

text \<open>\<^verbatim>\<open>Object.keys\<close>: it throws on \<^verbatim>\<open>undefined\<close>; a number has no enumerable key.\<close>

fun Object_keys :: "heap \<Rightarrow> jsval \<Rightarrow> error + string list" where
  "Object_keys h (Ref x) = Inr (map fst (h x))"
| "Object_keys h (Number _) = Inr []"
| "Object_keys h Undefined = Inl TypeError"

text \<open>
  \<^verbatim>\<open>String.prototype.toLowerCase\<close> on the ASCII letters.  A character outside ASCII is
  left as it is: none lower-cases to a letter that occurs in a key of the tables or in
  \<^verbatim>\<open>constructor\<close> or \<^verbatim>\<open>__proto__\<close>, so the outcome of the lookups is the same.
\<close>

definition lower_char :: "char \<Rightarrow> char" where
  "lower_char c =
    (if (65::nat) \<le> of_char c \<and> of_char c \<le> (90::nat) then char_of (of_char c + (32::nat)) else c)"

definition toLowerCase :: "string \<Rightarrow> string" where
  "toLowerCase s = map lower_char s"

section \<open>The adjustment loop (lines 108 to 114)\<close>

text \<open>Which branch of the loop body ran for a key; recorded next to the store.\<close>

datatype branch = UnitClamp | TempoFloor | NoBranch

text \<open>
  The body of the \<^verbatim>\<open>forEach\<close> callback.  An assignment to a property of a primitive is
  discarded (the module is not in strict mode).
\<close>

fun forEach_body :: "jsval \<Rightarrow> jsval \<Rightarrow> string \<Rightarrow> heap \<Rightarrow> error + (heap \<times> branch)" where
  "forEach_body Undefined adjustments key h = Inl TypeError"
| "forEach_body (Number n) adjustments key h =
    (if key = ''tempo'' then Inr (h, TempoFloor) else Inr (h, NoBranch))"
| "forEach_body (Ref x) adjustments key h =
    (if hasOwnProperty h x key then
       Inr (h(x := AList.update key
              (Math_max (Finite 0) (Math_min (Finite 1)
                 (plus_num (ToNumber (field h (Ref x) key)) (ToNumber (field h adjustments key)))))
              (h x)),
            UnitClamp)
     else if key = ''tempo'' then
       Inr (h(x := AList.update ''tempo''
              (Math_max (Finite 50)
                 (plus_num (ToNumber (field h (Ref x) ''tempo'')) (ToNumber (field h adjustments key))))
              (h x)),
            TempoFloor)
     else Inr (h, NoBranch))"

fun forEach :: "jsval \<Rightarrow> jsval \<Rightarrow> string list \<Rightarrow> heap \<Rightarrow> error + (heap \<times> branch list)" where
  "forEach features adjustments [] h = Inr (h, [])"
| "forEach features adjustments (key # keys) h =
    (case forEach_body features adjustments key h of
       Inl e \<Rightarrow> Inl e
     | Inr (h', b) \<Rightarrow>
        (case forEach features adjustments keys h' of
           Inl e \<Rightarrow> Inl e
         | Inr (h'', bs) \<Rightarrow> Inr (h'', b # bs)))"

section \<open>The resolver (lines 104 to 117)\<close>

record resolved =
  features :: jsval
  genres :: genres_val
  heap :: heap
  trace :: "branch list"

definition resolve :: "heap \<Rightarrow> string \<Rightarrow> string \<Rightarrow> error + resolved" where
  "resolve h moodKey ageGroup =
    (let features = js_or (get_MOOD_FEATURES h (toLowerCase moodKey)) (get_MOOD_FEATURES h ''happy'');
         adjustments = js_or (get_AGE_ADJUSTMENTS h ageGroup) (Ref EmptyLiteral)
     in case Object_keys h adjustments of
          Inl e \<Rightarrow> Inl e
        | Inr keys \<Rightarrow>
           (case forEach features adjustments keys h of
              Inl e \<Rightarrow> Inl e
            | Inr (h', bs) \<Rightarrow>
               Inr \<lparr>features = features,
                    genres = genres_or (get_MOOD_GENRES h' (toLowerCase moodKey)) ''pop'',
                    heap = h', trace = bs\<rparr>))"

text \<open>The default value of the parameter (line 99): it replaces an absent argument only.\<close>

fun ageGroup_default :: "string option \<Rightarrow> string" where
  "ageGroup_default None = ''18-25''"
| "ageGroup_default (Some a) = a"

text \<open>The five fields of the object \<^verbatim>\<open>features\<close> refers to, as lines 123 to 127 read them.\<close>

record profile =
  valence :: "jsnum option"
  energy :: "jsnum option"
  danceability :: "jsnum option"
  acousticness :: "jsnum option"
  tempo :: "jsnum option"

definition read_profile :: "heap \<Rightarrow> jsval \<Rightarrow> profile" where
  "read_profile h f =
    \<lparr>valence = field h f ''valence'', energy = field h f ''energy'',
     danceability = field h f ''danceability'', acousticness = field h f ''acousticness'',
     tempo = field h f ''tempo''\<rparr>"

text \<open>
  What the specification calls the output of a resolution: the profile and the genre seed
  list.
\<close>

definition resolved_output :: "error + resolved \<Rightarrow> error + (profile \<times> genres_val)" where
  "resolved_output x =
    (case x of Inl e \<Rightarrow> Inl e | Inr r \<Rightarrow> Inr (read_profile (heap r) (features r), genres r))"

section \<open>The query parameters (lines 120 to 128)\<close>

text \<open>The decimal digits of a natural number.\<close>

fun digits :: "nat \<Rightarrow> string" where
  "digits n =
    (if n < 10 then [char_of (48 + n)] else digits (n div 10) @ [char_of (48 + n mod 10)])"

declare digits.simps [simp del]

text \<open>
  \<^verbatim>\<open>Number.prototype.toFixed\<close>: the integer \<open>n\<close> nearest to \<open>x * 10 ^ f\<close>, the larger one
  at a tie, written with \<open>f\<close> digits after the point.  (From \<open>10 ^ 21\<close> on JavaScript
  switches to the exponent notation, which is not modelled; the values formatted here are
  table entries and results of the clamp to the unit interval.)
\<close>

definition toFixed :: "jsnum \<Rightarrow> nat \<Rightarrow> string" where
  "toFixed x f =
    (case x of
       NaN \<Rightarrow> ''NaN''
     | Finite r \<Rightarrow>
        (let n = nat \<lfloor>\<bar>r\<bar> * 10 ^ f + 1 / 2\<rfloor>;
             m = digits n;
             z = (if length m \<le> f then replicate (f + 1 - length m) (CHR ''0'') @ m else m);
             k = length z
         in (if r < 0 then ''-'' else []) @ take (k - f) z
            @ (if f = 0 then [] else ''.'' @ drop (k - f) z)))"

record params =
  seed_genres :: genres_val
  limit :: nat
  target_valence :: string
  target_energy :: string
  target_danceability :: string
  target_acousticness :: string
  target_tempo :: jsnum

text \<open>
  \<^verbatim>\<open>features.<name>.toFixed(2)\<close>: reading a property of \<^verbatim>\<open>undefined\<close> throws, and so does
  calling \<^verbatim>\<open>toFixed\<close> on \<^verbatim>\<open>undefined\<close>.
\<close>

definition toFixed_of :: "heap \<Rightarrow> jsval \<Rightarrow> string \<Rightarrow> error + string" where
  "toFixed_of h f k =
    (case f of
       Undefined \<Rightarrow> Inl TypeError
     | _ \<Rightarrow> (case field h f k of None \<Rightarrow> Inl TypeError | Some n \<Rightarrow> Inr (toFixed n 2)))"

definition round_of :: "heap \<Rightarrow> jsval \<Rightarrow> string \<Rightarrow> error + jsnum" where
  "round_of h f k =
    (case f of
       Undefined \<Rightarrow> Inl TypeError
     | _ \<Rightarrow> Inr (Math_round (ToNumber (field h f k))))"

definition build_params :: "heap \<Rightarrow> jsval \<Rightarrow> genres_val \<Rightarrow> error + params" where
  "build_params h f g =
    (case toFixed_of h f ''valence'' of Inl e \<Rightarrow> Inl e | Inr v \<Rightarrow>
     case toFixed_of h f ''energy'' of Inl e \<Rightarrow> Inl e | Inr en \<Rightarrow>
     case toFixed_of h f ''danceability'' of Inl e \<Rightarrow> Inl e | Inr d \<Rightarrow>
     case toFixed_of h f ''acousticness'' of Inl e \<Rightarrow> Inl e | Inr a \<Rightarrow>
     case round_of h f ''tempo'' of Inl e \<Rightarrow> Inl e | Inr t \<Rightarrow>
       Inr \<lparr>seed_genres = g, limit = 8, target_valence = v, target_energy = en,
            target_danceability = d, target_acousticness = a, target_tempo = t\<rparr>)"

text \<open>
  Lines 104 to 128 as one function of the store: the parameters handed to
  \<^verbatim>\<open>URLSearchParams\<close> and the store the call leaves behind.
\<close>

definition getRecommendationsByMoodAndAge ::
    "heap \<Rightarrow> string \<Rightarrow> string option \<Rightarrow> error + (params \<times> heap)" where
  "getRecommendationsByMoodAndAge h moodKey ageGroup =
    (case resolve h moodKey (ageGroup_default ageGroup) of
       Inl e \<Rightarrow> Inl e
     | Inr r \<Rightarrow>
        (case build_params (heap r) (features r) (genres r) of
           Inl e \<Rightarrow> Inl e
         | Inr p \<Rightarrow> Inr (p, heap r)))"

text \<open>The declared bounds of an AudioFeatureProfile.\<close>

fun in_unit_interval :: "jsnum option \<Rightarrow> bool" where
  "in_unit_interval (Some (Finite a)) = (0 \<le> a \<and> a \<le> 1)"
| "in_unit_interval _ = False"

fun at_least_50 :: "jsnum option \<Rightarrow> bool" where
  "at_least_50 (Some (Finite a)) = (50 \<le> a)"
| "at_least_50 _ = False"

definition within_bounds :: "profile \<Rightarrow> bool" where
  "within_bounds p =
    (in_unit_interval (valence p) \<and> in_unit_interval (energy p)
     \<and> in_unit_interval (danceability p) \<and> in_unit_interval (acousticness p)
     \<and> at_least_50 (tempo p))"

section \<open>The stores the code can reach\<close>

text \<open>
  The tables live as long as the process, so a call starts from the store the earlier
  calls left: the store after a list of calls, each with its mood string and its given or
  absent age group.  (The writes of lines 110 and 112 stay when line 123 throws
  afterwards.)
\<close>

fun run_calls :: "heap \<Rightarrow> (string \<times> string option) list \<Rightarrow> heap" where
  "run_calls h [] = h"
| "run_calls h ((moodKey, ageGroup) # calls) =
    (case resolve h moodKey (ageGroup_default ageGroup) of
       Inl e \<Rightarrow> run_calls h calls
     | Inr r \<Rightarrow> run_calls (heap r) calls)"

text \<open>
  What every such store satisfies: a table row keeps its five keys, the adjustment
  records and the empty literal are never written, and a built-in object is bare or
  holds the one property \<^verbatim>\<open>tempo\<close> with the value \<^verbatim>\<open>NaN\<close>.
\<close>

definition feature_names :: "string list" where
  "feature_names = [''valence'', ''energy'', ''danceability'', ''acousticness'', ''tempo'']"

definition bare_or_nan :: "props \<Rightarrow> bool" where
  "bare_or_nan ps = (ps = [] \<or> ps = [(''tempo'', NaN)])"

definition is_builtin :: "obj \<Rightarrow> bool" where
  "is_builtin x = (case x of ObjectCtor \<Rightarrow> True | ObjectPrototype \<Rightarrow> True | ProtoMethod n \<Rightarrow> True | _ \<Rightarrow> False)"

definition store_inv :: "heap \<Rightarrow> bool" where
  "store_inv h =
    ((\<forall>m \<in> set (map fst MOOD_FEATURES). map fst (h (FeaturesRow m)) = feature_names)
     \<and> (\<forall>a. h (AdjustRow a) = init (AdjustRow a))
     \<and> h EmptyLiteral = [] \<and> h FunctionPrototype = [] \<and> h NumberPrototype = []
     \<and> (\<forall>x. is_builtin x \<longrightarrow> bare_or_nan (h x)))"

section \<open>Facts about the lookups\<close>

text \<open>
  The fallback of line 104 is the row of \<^verbatim>\<open>"happy"\<close>, an object: \<^verbatim>\<open>features\<close> is never
  \<^verbatim>\<open>undefined\<close>, and neither is \<^verbatim>\<open>adjustments\<close>.
\<close>

lemma truthy_not_Undefined: "truthy v \<Longrightarrow> v \<noteq> Undefined"
  by (cases v) auto

lemma js_or_Ref_defined: "js_or v (Ref x) \<noteq> Undefined"
  by (simp add: js_or_def truthy_not_Undefined)

lemma happy_row: "get_MOOD_FEATURES h ''happy'' = Ref (FeaturesRow ''happy'')"
  by (simp add: get_MOOD_FEATURES_def MOOD_FEATURES_def)

lemma Object_keys_defined: "v \<noteq> Undefined \<Longrightarrow> \<exists>ks. Object_keys h v = Inr ks"
  by (cases v) auto

text \<open>
  In the store of the freshly loaded module no built-in object has an enumerable property,
  so a key that \<^verbatim>\<open>AGE_ADJUSTMENTS\<close> does not own yields an object without keys.
\<close>

lemma init_proto_bare: "init ObjectPrototype = []"
  by (simp add: init_def)

lemma builtin_objects_bare:
  "\<forall>v \<in> set (map snd Object_prototype_own). \<exists>x. v = Ref x \<and> init x = []"
  by (simp add: Object_prototype_own_def init_def)

lemma inherited_init_bare:
  "Object_keys init (js_or (inherited init k) (Ref EmptyLiteral)) = Inr []"
proof (cases "map_of Object_prototype_own k")
  case None
  then show ?thesis
    by (simp add: inherited_def init_proto_bare js_or_def init_def)
next
  case (Some v)
  then have "v \<in> set (map snd Object_prototype_own)"
    by (metis map_of_SomeD image_eqI set_map snd_conv)
  then obtain x where "v = Ref x" "init x = []"
    using builtin_objects_bare by blast
  with Some show ?thesis
    by (simp add: inherited_def init_proto_bare js_or_def)
qed

lemma unknown_age_group:
  "a \<notin> {''13-17'', ''18-25'', ''26-35'', ''36-50'', ''50+''} \<Longrightarrow> map_of AGE_ADJUSTMENTS a = None"
  by (simp add: AGE_ADJUSTMENTS_def)

lemma unknown_age_no_keys:
  assumes "map_of AGE_ADJUSTMENTS a = None"
  shows "Object_keys init (js_or (get_AGE_ADJUSTMENTS init a) (Ref EmptyLiteral)) = Inr []"
  using assms by (simp add: get_AGE_ADJUSTMENTS_def inherited_init_bare)

text \<open>
  A lower-cased string holds no capital letter, so of the names \<^verbatim>\<open>Object.prototype\<close>
  defines only \<^verbatim>\<open>constructor\<close> and \<^verbatim>\<open>__proto__\<close> can come out of \<^verbatim>\<open>toLowerCase\<close>.
\<close>

lemma lower_char_not_upper:
  "\<not> ((65::nat) \<le> of_char (lower_char c) \<and> of_char (lower_char c) \<le> (90::nat))"
proof (cases "(65::nat) \<le> of_char c \<and> of_char c \<le> (90::nat)")
  case True
  then have "of_char (lower_char c) = (of_char c + 32 :: nat)"
    by (simp add: lower_char_def)
  with True show ?thesis by simp
next
  case False
  then show ?thesis by (simp add: lower_char_def)
qed

lemma toLowerCase_no_upper:
  assumes "c \<in> set (toLowerCase s)"
  shows "\<not> ((65::nat) \<le> of_char c \<and> of_char c \<le> (90::nat))"
proof -
  from assms obtain d where "c = lower_char d"
    by (auto simp: toLowerCase_def)
  then show ?thesis
    using lower_char_not_upper by blast
qed

lemma inherited_lower_case:
  assumes "map_of Object_prototype_own (toLowerCase s) = Some v"
  shows "toLowerCase s \<in> {''constructor'', ''__proto__''}"
proof -
  have up: "CHR ''G'' \<notin> set (toLowerCase s)" "CHR ''S'' \<notin> set (toLowerCase s)"
    "CHR ''O'' \<notin> set (toLowerCase s)" "CHR ''P'' \<notin> set (toLowerCase s)"
    "CHR ''I'' \<notin> set (toLowerCase s)" "CHR ''L'' \<notin> set (toLowerCase s)"
    using toLowerCase_no_upper [of "CHR ''G''" s] toLowerCase_no_upper [of "CHR ''S''" s]
      toLowerCase_no_upper [of "CHR ''O''" s] toLowerCase_no_upper [of "CHR ''P''" s]
      toLowerCase_no_upper [of "CHR ''I''" s] toLowerCase_no_upper [of "CHR ''L''" s]
    by auto
  from assms have "toLowerCase s \<in> set (map fst Object_prototype_own)"
    by (metis map_of_SomeD image_eqI set_map fst_conv)
  then show ?thesis
    using up by (auto simp: Object_prototype_own_def)
qed

lemma fallback_to_happy:
  assumes "toLowerCase moodKey \<notin> {''happy'', ''energetic'', ''calm'', ''sad'', ''stressed''}"
    and "toLowerCase moodKey \<notin> {''constructor'', ''__proto__''}"
  shows "map_of MOOD_FEATURES (toLowerCase moodKey) = None"
    and "map_of MOOD_GENRES (toLowerCase moodKey) = None"
    and "map_of Object_prototype_own (toLowerCase moodKey) = None"
proof -
  show "map_of MOOD_FEATURES (toLowerCase moodKey) = None"
    using assms(1) by (simp add: MOOD_FEATURES_def)
  show "map_of MOOD_GENRES (toLowerCase moodKey) = None"
    using assms(1) by (simp add: MOOD_GENRES_def)
  show "map_of Object_prototype_own (toLowerCase moodKey) = None"
    using assms(2) inherited_lower_case [of moodKey] by (cases "map_of Object_prototype_own (toLowerCase moodKey)") auto
qed

lemma base_is_row:
  assumes "toLowerCase moodKey \<notin> {''constructor'', ''__proto__''}"
  shows "\<exists>m row. js_or (get_MOOD_FEATURES init (toLowerCase moodKey)) (get_MOOD_FEATURES init ''happy'')
           = Ref (FeaturesRow m) \<and> map_of MOOD_FEATURES m = Some row"
proof (cases "map_of MOOD_FEATURES (toLowerCase moodKey)")
  case (Some row)
  then show ?thesis
    by (simp add: get_MOOD_FEATURES_def js_or_def)
next
  case None
  have "map_of Object_prototype_own (toLowerCase moodKey) = None"
    using assms inherited_lower_case [of moodKey]
    by (cases "map_of Object_prototype_own (toLowerCase moodKey)") auto
  with None have "js_or (get_MOOD_FEATURES init (toLowerCase moodKey)) (get_MOOD_FEATURES init ''happy'')
      = Ref (FeaturesRow ''happy'')"
    by (simp add: get_MOOD_FEATURES_def inherited_def init_proto_bare js_or_def
        happy_row [unfolded get_MOOD_FEATURES_def])
  moreover have "\<exists>row. map_of MOOD_FEATURES ''happy'' = Some row"
    by (simp add: MOOD_FEATURES_def)
  ultimately show ?thesis by blast
qed

section \<open>Facts about the loop\<close>

lemma forEach_body_defined: "f \<noteq> Undefined \<Longrightarrow> \<exists>h' b. forEach_body f a k h = Inr (h', b)"
  by (cases f) auto

lemma forEach_defined: "f \<noteq> Undefined \<Longrightarrow> \<exists>h' bs. forEach f a ks h = Inr (h', bs)"
proof (induction ks arbitrary: h)
  case Nil
  then show ?case by simp
next
  case (Cons k ks)
  from Cons.prems obtain h1 b where 1: "forEach_body f a k h = Inr (h1, b)"
    using forEach_body_defined by blast
  from Cons.IH [OF Cons.prems] obtain h2 bs where 2: "forEach f a ks h1 = Inr (h2, bs)"
    by blast
  show ?case by (simp add: 1 2)
qed

text \<open>
  The loop writes to the object \<^verbatim>\<open>features\<close> refers to and to no other.
\<close>

lemma forEach_body_frame:
  "forEach_body (Ref x) a k h = Inr (h', b) \<Longrightarrow> y \<noteq> x \<Longrightarrow> h' y = h y"
  by (auto split: if_splits)

lemma forEach_frame:
  "forEach (Ref x) a ks h = Inr (h', bs) \<Longrightarrow> y \<noteq> x \<Longrightarrow> h' y = h y"
proof (induction ks arbitrary: h h' bs)
  case Nil
  then show ?case by simp
next
  case (Cons k ks)
  from Cons.prems(1) obtain h1 b bs1 where
    1: "forEach_body (Ref x) a k h = Inr (h1, b)" and 2: "forEach (Ref x) a ks h1 = Inr (h', bs1)"
    by (auto split: sum.splits)
  have "h' y = h1 y" using Cons.IH [OF 2 Cons.prems(2)] .
  also have "h1 y = h y" using forEach_body_frame [OF 1 Cons.prems(2)] .
  finally show ?case .
qed

text \<open>
  The twenty-five pairs of a table row and an age bracket, each run from the freshly
  loaded store: the tempo key always takes the clamp of line 110 and the resolved tempo
  is 1; the four bounded fields stay in the unit interval.
\<close>

lemma rows_loop:
  "\<forall>m \<in> set (map fst MOOD_FEATURES). \<forall>a \<in> set (map fst AGE_ADJUSTMENTS).
     (case forEach (Ref (FeaturesRow m)) (Ref (AdjustRow a)) (map fst (init (AdjustRow a))) init of
        Inl e \<Rightarrow> False
      | Inr (h', bs) \<Rightarrow>
          TempoFloor \<notin> set bs
          \<and> field h' (Ref (FeaturesRow m)) ''tempo'' =
              Some (Math_max (Finite 0) (Math_min (Finite 1)
                (plus_num (ToNumber (field init (Ref (FeaturesRow m)) ''tempo''))
                   (ToNumber (field init (Ref (AdjustRow a)) ''tempo''))))))"
  by code_simp

lemma all_rows_tempo_one:
  "\<forall>m \<in> set (map fst MOOD_FEATURES). \<forall>a \<in> set (map fst AGE_ADJUSTMENTS).
     (case resolve init m a of
        Inl e \<Rightarrow> False
      | Inr r \<Rightarrow>
          in_unit_interval (valence (read_profile (heap r) (features r)))
          \<and> in_unit_interval (energy (read_profile (heap r) (features r)))
          \<and> in_unit_interval (danceability (read_profile (heap r) (features r)))
          \<and> in_unit_interval (acousticness (read_profile (heap r) (features r)))
          \<and> tempo (read_profile (heap r) (features r)) = Some (Finite 1))"
  by code_simp

lemma rows_fields_adjusted:
  "\<forall>m \<in> set (map fst MOOD_FEATURES). \<forall>a \<in> set (map fst AGE_ADJUSTMENTS).
     (case forEach (Ref (FeaturesRow m)) (Ref (AdjustRow a)) (map fst (init (AdjustRow a))) init of
        Inl e \<Rightarrow> False
      | Inr (h', bs) \<Rightarrow>
          list_all (\<lambda>k. field h' (Ref (FeaturesRow m)) k \<noteq> None)
            [''valence'', ''energy'', ''danceability'', ''acousticness''])"
  by code_simp

lemma rows_fields_init:
  "\<forall>m \<in> set (map fst MOOD_FEATURES).
     list_all (\<lambda>k. field init (Ref (FeaturesRow m)) k \<noteq> None)
       [''valence'', ''energy'', ''danceability'', ''acousticness'']"
  by code_simp

text \<open>
  Every mood string that does not lower-case to \<^verbatim>\<open>constructor\<close> or \<^verbatim>\<open>__proto__\<close> resolves
  to a table row, and the parameters are then built from its fields: each bounded field
  through \<^verbatim>\<open>toFixed(2)\<close>, the tempo through \<^verbatim>\<open>Math.round\<close>, the genres unchanged.
\<close>

lemma build_params_on_fields:
  assumes "field h (Ref x) ''valence'' = Some v" and "field h (Ref x) ''energy'' = Some e"
    and "field h (Ref x) ''danceability'' = Some d" and "field h (Ref x) ''acousticness'' = Some a"
  shows "build_params h (Ref x) g =
    Inr \<lparr>seed_genres = g, limit = 8, target_valence = toFixed v 2, target_energy = toFixed e 2,
         target_danceability = toFixed d 2, target_acousticness = toFixed a 2,
         target_tempo = Math_round (ToNumber (field h (Ref x) ''tempo''))\<rparr>"
  using assms by (simp add: build_params_def toFixed_of_def round_of_def del: field.simps)

lemma resolve_on_rows_fields:
  assumes "toLowerCase moodKey \<notin> {''constructor'', ''__proto__''}"
  shows "\<exists>r m. resolve init moodKey ageGroup = Inr r \<and> features r = Ref (FeaturesRow m)
      \<and> list_all (\<lambda>k. field (heap r) (Ref (FeaturesRow m)) k \<noteq> None)
            [''valence'', ''energy'', ''danceability'', ''acousticness'']"
proof -
  obtain m row where f: "js_or (get_MOOD_FEATURES init (toLowerCase moodKey))
      (get_MOOD_FEATURES init ''happy'') = Ref (FeaturesRow m)"
    and row: "map_of MOOD_FEATURES m = Some row"
    using base_is_row [OF assms(1)] by blast
  have m: "m \<in> set (map fst MOOD_FEATURES)"
    using row by (metis map_of_SomeD image_eqI set_map fst_conv)
  show ?thesis
  proof (cases "map_of AGE_ADJUSTMENTS ageGroup")
    case None
    then have "Object_keys init (js_or (get_AGE_ADJUSTMENTS init ageGroup) (Ref EmptyLiteral)) = Inr []"
      by (rule unknown_age_no_keys)
    then have "resolve init moodKey ageGroup =
        Inr \<lparr>features = Ref (FeaturesRow m),
           genres = genres_or (get_MOOD_GENRES init (toLowerCase moodKey)) ''pop'',
           heap = init, trace = []\<rparr>"
      by (simp add: resolve_def Let_def f)
    moreover have "list_all (\<lambda>k. field init (Ref (FeaturesRow m)) k \<noteq> None)
        [''valence'', ''energy'', ''danceability'', ''acousticness'']"
      using rows_fields_init m by blast
    ultimately show ?thesis
      by (simp del: field.simps)
  next
    case (Some adj)
    then have a: "js_or (get_AGE_ADJUSTMENTS init ageGroup) (Ref EmptyLiteral) = Ref (AdjustRow ageGroup)"
      by (simp add: get_AGE_ADJUSTMENTS_def js_or_def)
    have ag: "ageGroup \<in> set (map fst AGE_ADJUSTMENTS)"
      using Some by (metis map_of_SomeD image_eqI set_map fst_conv)
    obtain h' bs where
      loop: "forEach (Ref (FeaturesRow m)) (Ref (AdjustRow ageGroup))
          (map fst (init (AdjustRow ageGroup))) init = Inr (h', bs)"
      and fs: "list_all (\<lambda>k. field h' (Ref (FeaturesRow m)) k \<noteq> None)
            [''valence'', ''energy'', ''danceability'', ''acousticness'']"
      using rows_fields_adjusted m ag by (fastforce split: sum.splits)
    have ks: "Object_keys init (Ref (AdjustRow ageGroup)) = Inr (map fst (init (AdjustRow ageGroup)))"
      by simp
    have "resolve init moodKey ageGroup =
        Inr \<lparr>features = Ref (FeaturesRow m),
             genres = genres_or (get_MOOD_GENRES h' (toLowerCase moodKey)) ''pop'',
             heap = h', trace = bs\<rparr>"
      by (simp only: resolve_def Let_def f a ks loop sum.case prod.case)
    then show ?thesis
      using fs by (simp del: field.simps)
  qed
qed

lemma serialization_on_rows:
  assumes "toLowerCase moodKey \<notin> {''constructor'', ''__proto__''}"
  shows "\<exists>r v e d a. resolve init moodKey (ageGroup_default ageGroup) = Inr r
      \<and> valence (read_profile (heap r) (features r)) = Some v
      \<and> energy (read_profile (heap r) (features r)) = Some e
      \<and> danceability (read_profile (heap r) (features r)) = Some d
      \<and> acousticness (read_profile (heap r) (features r)) = Some a
      \<and> getRecommendationsByMoodAndAge init moodKey ageGroup =
          Inr (\<lparr>seed_genres = genres r, limit = 8,
                target_valence = toFixed v 2, target_energy = toFixed e 2,
                target_danceability = toFixed d 2, target_acousticness = toFixed a 2,
                target_tempo = Math_round (ToNumber (tempo (read_profile (heap r) (features r))))\<rparr>,
               heap r)"
proof -
  obtain r m where r: "resolve init moodKey (ageGroup_default ageGroup) = Inr r"
    and f: "features r = Ref (FeaturesRow m)"
    and fs: "list_all (\<lambda>k. field (heap r) (Ref (FeaturesRow m)) k \<noteq> None)
            [''valence'', ''energy'', ''danceability'', ''acousticness'']"
    using resolve_on_rows_fields [OF assms] by blast
  from fs obtain v e d a where
    1: "field (heap r) (Ref (FeaturesRow m)) ''valence'' = Some v"
    and 2: "field (heap r) (Ref (FeaturesRow m)) ''energy'' = Some e"
    and 3: "field (heap r) (Ref (FeaturesRow m)) ''danceability'' = Some d"
    and 4: "field (heap r) (Ref (FeaturesRow m)) ''acousticness'' = Some a"
    by (auto simp del: field.simps)
  show ?thesis
    using build_params_on_fields [OF 1 2 3 4, of "genres r"]
    by (simp add: getRecommendationsByMoodAndAge_def r f read_profile_def 1 2 3 4 del: field.simps)
qed

section \<open>Facts about the stores the code can reach\<close>

text \<open>
  The loop body keeps the invariant, whichever object \<^verbatim>\<open>features\<close> refers to: a table row
  or a built-in object.
\<close>

lemma store_inv_init: "store_inv init"
  by (simp add: store_inv_def init_def bare_or_nan_def is_builtin_def MOOD_FEATURES_def feature_names_def split: obj.splits)

lemma store_inv_row:
  assumes "store_inv h" and "map fst ps = map fst (h (FeaturesRow m))"
  shows "store_inv (h(FeaturesRow m := ps))"
  using assms by (auto simp: store_inv_def is_builtin_def)

lemma store_inv_builtin:
  assumes "store_inv h" and "is_builtin x" and "bare_or_nan ps"
  shows "store_inv (h(x := ps))"
  using assms by (auto simp: store_inv_def is_builtin_def split: obj.splits)

lemma plus_num_NaN: "plus_num NaN y = NaN" "plus_num x NaN = NaN"
  by (cases y; simp) (cases x; simp)

lemma Math_NaN: "Math_max x NaN = NaN" "Math_min x NaN = NaN"
  by (cases x; simp)+

lemma forEach_body_inv_row:
  assumes "store_inv h" and "m \<in> set (map fst MOOD_FEATURES)"
    and "forEach_body (Ref (FeaturesRow m)) a k h = Inr (h', b)"
  shows "store_inv h'"
proof -
  have keys: "map fst (h (FeaturesRow m)) = feature_names"
    using assms(1,2) by (auto simp: store_inv_def)
  have "''tempo'' \<in> set feature_names"
    by (simp add: feature_names_def)
  then have "''tempo'' \<in> set (map fst (h (FeaturesRow m)))"
    by (simp only: keys)
  then have tempo: "hasOwnProperty h (FeaturesRow m) ''tempo''"
    by (simp add: hasOwnProperty_def map_of_eq_None_iff)
  show ?thesis
  proof (cases "hasOwnProperty h (FeaturesRow m) k")
    case True
    then have "k \<in> set (map fst (h (FeaturesRow m)))"
      by (simp add: hasOwnProperty_def map_of_eq_None_iff)
    then have "map fst (AList.update k v (h (FeaturesRow m))) = map fst (h (FeaturesRow m))" for v
      by (simp add: update_keys)
    with True assms(1,3) show ?thesis
      by (auto intro: store_inv_row)
  next
    case False
    with tempo have "k \<noteq> ''tempo''" by auto
    with False assms(1,3) show ?thesis by auto
  qed
qed

lemma builtin_tempo_is_NaN:
  assumes "store_inv h" and "is_builtin x"
  shows "ToNumber (field h (Ref x) ''tempo'') = NaN"
proof -
  have x: "bare_or_nan (h x)" and p: "bare_or_nan (h ObjectPrototype)" and f: "h FunctionPrototype = []"
    using assms by (simp_all add: store_inv_def is_builtin_def)
  from assms(2) have "prototypes x = [] \<or> prototypes x = [FunctionPrototype, ObjectPrototype]"
    by (cases x) (simp_all add: is_builtin_def)
  with x p f show ?thesis
    by (auto simp: bare_or_nan_def)
qed

lemma forEach_body_inv_builtin:
  assumes "store_inv h" and "is_builtin x"
    and "forEach_body (Ref x) a k h = Inr (h', b)"
  shows "store_inv h'"
proof -
  have x: "bare_or_nan (h x)"
    using assms(1,2) by (simp add: store_inv_def)
  show ?thesis
  proof (cases "hasOwnProperty h x k")
    case True
    with x have hx: "h x = [(''tempo'', NaN)]" and k: "k = ''tempo''"
      by (auto simp: bare_or_nan_def hasOwnProperty_def split: if_splits)
    have "h' = h(x := [(''tempo'', NaN)])"
      using assms(3) True builtin_tempo_is_NaN [OF assms(1,2)]
      by (simp add: k hx plus_num_NaN Math_NaN del: field.simps)
    then show ?thesis
      using assms(1,2) by (simp add: store_inv_builtin bare_or_nan_def)
  next
    case False
    show ?thesis
    proof (cases "k = ''tempo''")
      case True
      with False x have hx: "h x = []"
        by (auto simp: bare_or_nan_def hasOwnProperty_def)
      have "h' = h(x := [(''tempo'', NaN)])"
        using assms(3) False True builtin_tempo_is_NaN [OF assms(1,2)]
        by (simp add: hx plus_num_NaN Math_NaN del: field.simps)
      then show ?thesis
        using assms(1,2) by (simp add: store_inv_builtin bare_or_nan_def)
    next
      case k: False
      with False assms(1,3) show ?thesis by auto
    qed
  qed
qed

lemma forEach_body_inv:
  assumes "store_inv h" and "m \<in> set (map fst MOOD_FEATURES) \<and> x = FeaturesRow m \<or> is_builtin x"
    and "forEach_body (Ref x) a k h = Inr (h', b)"
  shows "store_inv h'"
  using assms forEach_body_inv_row forEach_body_inv_builtin by blast

lemma forEach_inv:
  assumes "store_inv h" and "m \<in> set (map fst MOOD_FEATURES) \<and> x = FeaturesRow m \<or> is_builtin x"
    and "forEach (Ref x) a ks h = Inr (h', bs)"
  shows "store_inv h'"
  using assms(1,3)
proof (induction ks arbitrary: h h' bs)
  case Nil
  then show ?case by simp
next
  case (Cons k ks)
  from Cons.prems(2) obtain h1 b bs1 where
    1: "forEach_body (Ref x) a k h = Inr (h1, b)" and 2: "forEach (Ref x) a ks h1 = Inr (h', bs1)"
    by (auto split: sum.splits)
  have "store_inv h1"
    using forEach_body_inv [OF Cons.prems(1) assms(2) 1] .
  then show ?case
    using Cons.IH 2 by blast
qed

lemma inherited_kinds:
  assumes "store_inv h"
  shows "\<not> truthy (inherited h k) \<or> (\<exists>x. inherited h k = Ref x \<and> is_builtin x)"
proof (cases "map_of (h ObjectPrototype) k")
  case (Some n)
  have "bare_or_nan (h ObjectPrototype)"
    using assms by (simp add: store_inv_def is_builtin_def)
  with Some have "n = NaN"
    by (auto simp: bare_or_nan_def split: if_splits)
  with Some show ?thesis
    by (simp add: inherited_def)
next
  case None
  show ?thesis
  proof (cases "map_of Object_prototype_own k")
    case n: None
    with None show ?thesis by (simp add: inherited_def)
  next
    case (Some v)
    then have "v \<in> set (map snd Object_prototype_own)"
      by (metis map_of_SomeD image_eqI set_map snd_conv)
    then have "\<exists>x. v = Ref x \<and> is_builtin x"
      by (auto simp: Object_prototype_own_def is_builtin_def)
    with None Some show ?thesis by (simp add: inherited_def)
  qed
qed

lemma features_kinds:
  assumes "store_inv h"
  shows "\<exists>x. js_or (get_MOOD_FEATURES h k) (get_MOOD_FEATURES h ''happy'') = Ref x
      \<and> ((\<exists>m. m \<in> set (map fst MOOD_FEATURES) \<and> x = FeaturesRow m) \<or> is_builtin x)"
proof (cases "map_of MOOD_FEATURES k")
  case (Some row)
  then have "k \<in> set (map fst MOOD_FEATURES)"
    by (metis map_of_SomeD image_eqI set_map fst_conv)
  moreover from Some have "js_or (get_MOOD_FEATURES h k) (get_MOOD_FEATURES h ''happy'') = Ref (FeaturesRow k)"
    by (simp add: get_MOOD_FEATURES_def js_or_def)
  ultimately show ?thesis by blast
next
  case None
  have happy: "''happy'' \<in> set (map fst MOOD_FEATURES)"
    by (simp add: MOOD_FEATURES_def)
  from inherited_kinds [OF assms, of k] show ?thesis
  proof
    assume "\<not> truthy (inherited h k)"
    with None have "js_or (get_MOOD_FEATURES h k) (get_MOOD_FEATURES h ''happy'') = Ref (FeaturesRow ''happy'')"
      by (simp add: js_or_def happy_row) (simp add: get_MOOD_FEATURES_def)
    with happy show ?thesis by blast
  next
    assume "\<exists>x. inherited h k = Ref x \<and> is_builtin x"
    with None show ?thesis
      by (auto simp: get_MOOD_FEATURES_def js_or_def)
  qed
qed

lemma resolve_inv:
  assumes "store_inv h" and "resolve h moodKey ageGroup = Inr r"
  shows "store_inv (heap r)"
proof -
  let ?a = "js_or (get_AGE_ADJUSTMENTS h ageGroup) (Ref EmptyLiteral)"
  obtain x where f: "js_or (get_MOOD_FEATURES h (toLowerCase moodKey)) (get_MOOD_FEATURES h ''happy'') = Ref x"
    and x: "(\<exists>m. m \<in> set (map fst MOOD_FEATURES) \<and> x = FeaturesRow m) \<or> is_builtin x"
    using features_kinds [OF assms(1)] by blast
  obtain ks where ks: "Object_keys h ?a = Inr ks"
    using Object_keys_defined [OF js_or_Ref_defined] by blast
  obtain h' bs where loop: "forEach (Ref x) ?a ks h = Inr (h', bs)"
    using forEach_defined [of "Ref x"] by blast
  have "heap r = h'"
    using assms(2) by (auto simp: resolve_def Let_def f ks loop)
  moreover have "store_inv h'"
    using x forEach_inv [OF assms(1) _ loop] by blast
  ultimately show ?thesis by simp
qed

lemma run_calls_inv: "store_inv h \<Longrightarrow> store_inv (run_calls h calls)"
proof (induction calls arbitrary: h)
  case Nil
  then show ?case by simp
next
  case (Cons c calls)
  obtain moodKey ageGroup where c: "c = (moodKey, ageGroup)"
    by (cases c)
  show ?case
  proof (cases "resolve h moodKey (ageGroup_default ageGroup)")
    case (Inl e)
    with Cons c show ?thesis by simp
  next
    case (Inr r)
    then have "store_inv (heap r)"
      using resolve_inv [OF Cons.prems] by blast
    with Cons.IH Inr c show ?thesis by simp
  qed
qed

lemma reached_store_inv: "store_inv (run_calls init calls)"
  by (rule run_calls_inv [OF store_inv_init])

text \<open>
  In such a store a key that is neither a table key nor a built-in name is falsy, so
  the fallbacks of lines 104 and 117 are taken.
\<close>

lemma inherited_falsy:
  assumes "store_inv h" and "map_of Object_prototype_own k = None"
  shows "\<not> truthy (inherited h k)"
proof -
  from inherited_kinds [OF assms(1), of k] show ?thesis
  proof
    assume "\<exists>x. inherited h k = Ref x \<and> is_builtin x"
    then obtain x where x: "inherited h k = Ref x" by blast
    have "bare_or_nan (h ObjectPrototype)"
      using assms(1) by (simp add: store_inv_def is_builtin_def)
    then show ?thesis
      using x assms(2) by (auto simp: inherited_def bare_or_nan_def split: option.splits if_splits)
  qed
qed

lemma inherited_cong: "h' ObjectPrototype = h ObjectPrototype \<Longrightarrow> inherited h' k = inherited h k"
  by (simp add: inherited_def)

lemma base_is_row_reached:
  assumes "store_inv h" and "toLowerCase moodKey \<notin> {''constructor'', ''__proto__''}"
  shows "\<exists>m. js_or (get_MOOD_FEATURES h (toLowerCase moodKey)) (get_MOOD_FEATURES h ''happy'')
           = Ref (FeaturesRow m) \<and> m \<in> set (map fst MOOD_FEATURES)"
proof (cases "map_of MOOD_FEATURES (toLowerCase moodKey)")
  case (Some row)
  then have "toLowerCase moodKey \<in> set (map fst MOOD_FEATURES)"
    by (metis map_of_SomeD image_eqI set_map fst_conv)
  moreover from Some have "js_or (get_MOOD_FEATURES h (toLowerCase moodKey))
      (get_MOOD_FEATURES h ''happy'') = Ref (FeaturesRow (toLowerCase moodKey))"
    by (simp add: get_MOOD_FEATURES_def js_or_def)
  ultimately show ?thesis by blast
next
  case None
  have "map_of Object_prototype_own (toLowerCase moodKey) = None"
    using assms(2) inherited_lower_case [of moodKey]
    by (cases "map_of Object_prototype_own (toLowerCase moodKey)") auto
  then have "\<not> truthy (inherited h (toLowerCase moodKey))"
    by (rule inherited_falsy [OF assms(1)])
  with None have "js_or (get_MOOD_FEATURES h (toLowerCase moodKey)) (get_MOOD_FEATURES h ''happy'')
      = Ref (FeaturesRow ''happy'')"
    by (simp add: js_or_def happy_row) (simp add: get_MOOD_FEATURES_def)
  moreover have "''happy'' \<in> set (map fst MOOD_FEATURES)"
    by (simp add: MOOD_FEATURES_def)
  ultimately show ?thesis by blast
qed

text \<open>
  A table row and an age bracket, the row with whatever values the earlier calls left:
  the tempo key takes the clamp of line 110, applied to the tempo the row holds.
\<close>

lemma row_shape:
  assumes "map fst ps = feature_names"
  shows "\<exists>v e d a t. ps = [(''valence'', v), (''energy'', e), (''danceability'', d),
      (''acousticness'', a), (''tempo'', t)]"
proof -
  from assms have "length ps = 5"
    by (metis length_map feature_names_def length_Cons list.size(3) eval_nat_numeral(2,3) numeral_One One_nat_def Suc_numeral semiring_norm(2,5,8))
  then obtain p1 p2 p3 p4 p5 where "ps = [p1, p2, p3, p4, p5]"
    by (auto simp: length_Suc_conv eval_nat_numeral)
  with assms show ?thesis
    by (cases p1; cases p2; cases p3; cases p4; cases p5) (simp add: feature_names_def)
qed

lemma rows_loop_reached:
  assumes "h (FeaturesRow m) = [(''valence'', v), (''energy'', e), (''danceability'', d),
      (''acousticness'', a), (''tempo'', t)]"
    and "h (AdjustRow g) = init (AdjustRow g)"
    and "g \<in> set (map fst AGE_ADJUSTMENTS)"
  shows "\<exists>h' bs. forEach (Ref (FeaturesRow m)) (Ref (AdjustRow g)) (map fst (h (AdjustRow g))) h = Inr (h', bs)
      \<and> TempoFloor \<notin> set bs
      \<and> field h' (Ref (FeaturesRow m)) ''tempo'' =
          Some (Math_max (Finite 0) (Math_min (Finite 1)
            (plus_num t (ToNumber (map_of (init (AdjustRow g)) ''tempo'')))))"
proof -
  from assms(3) consider "g = ''13-17''" | "g = ''18-25''" | "g = ''26-35''" | "g = ''36-50''" | "g = ''50+''"
    by (auto simp: AGE_ADJUSTMENTS_def)
  then show ?thesis
  proof cases
    case 1
    then show ?thesis using assms(1,2)
      by (simp add: init_def AGE_ADJUSTMENTS_def hasOwnProperty_def)
  next
    case 2
    then show ?thesis using assms(1,2)
      by (simp add: init_def AGE_ADJUSTMENTS_def hasOwnProperty_def)
  next
    case 3
    then show ?thesis using assms(1,2)
      by (simp add: init_def AGE_ADJUSTMENTS_def hasOwnProperty_def)
  next
    case 4
    then show ?thesis using assms(1,2)
      by (simp add: init_def AGE_ADJUSTMENTS_def hasOwnProperty_def)
  next
    case 5
    then show ?thesis using assms(1,2)
      by (simp add: init_def AGE_ADJUSTMENTS_def hasOwnProperty_def)
  qed
qed

text \<open>
  So a second call with \<^verbatim>\<open>"calm"\<close> and \<^verbatim>\<open>"50+"\<close> starts from the tempo 1 and returns 0.
\<close>

lemma second_call_calm_50_plus:
  "(case resolve (run_calls init [(''calm'', Some ''50+'')]) ''calm'' ''50+'' of
      Inl e \<Rightarrow> False
    | Inr r \<Rightarrow>
        tempo (read_profile (run_calls init [(''calm'', Some ''50+'')]) (features r)) = Some (Finite 1)
        \<and> tempo (read_profile (heap r) (features r)) = Some (Finite 0)
        \<and> trace r = [UnitClamp, UnitClamp, UnitClamp])"
  by code_simp

section \<open>The bounds of the resolved profile\<close>

text \<open>
  Claim C1.  Every resolved profile should have its four bounded fields in the unit
  interval and a tempo of at least 50.  For mood \<^verbatim>\<open>"happy"\<close> and age group \<^verbatim>\<open>"13-17"\<close> the
  code returns the tempo 1, so the profile is out of its bounds.
\<close>

theorem C1_happy_13_17_out_of_bounds:
  "(case resolve init ''happy'' ''13-17'' of
      Inl e \<Rightarrow> False
    | Inr r \<Rightarrow>
        tempo (read_profile (heap r) (features r)) = Some (Finite 1)
        \<and> within_bounds (read_profile (heap r) (features r)) = False)"
  by code_simp

text \<open>
  Claim C2.  The resolved tempo should be the base tempo plus the delta of the age
  bracket, floored at 50 and with no ceiling: 130 - 15 = 115 for mood \<^verbatim>\<open>"energetic"\<close> and
  age group \<^verbatim>\<open>"50+"\<close>.  The code runs the clamp of line 110 on that key (the trace
  records the branch taken for each key) and returns the tempo 1.
\<close>

theorem C2_energetic_50_plus_tempo:
  "(case resolve init ''energetic'' ''50+'' of
      Inl e \<Rightarrow> False
    | Inr r \<Rightarrow>
        field init (Ref (FeaturesRow ''energetic'')) ''tempo'' = Some (Finite 130)
        \<and> field init (Ref (AdjustRow ''50+'')) ''tempo'' = Some (Finite (- 15))
        \<and> Math_max (Finite 50) (plus_num (Finite 130) (Finite (- 15))) = Finite 115
        \<and> trace r = [UnitClamp, UnitClamp, UnitClamp]
        \<and> field (heap r) (features r) ''tempo'' = Some (Finite 1))"
  by code_simp

section \<open>Repeated calls\<close>

text \<open>
  Claim C3.  Two calls in sequence with the same arguments should give the same output,
  and no call should change the tables.  The object \<^verbatim>\<open>features\<close> refers to is the row of
  \<^verbatim>\<open>MOOD_FEATURES\<close> itself, the first call with \<^verbatim>\<open>"happy"\<close> and \<^verbatim>\<open>"13-17"\<close> overwrites three
  of its properties, and the second call starts from the overwritten row: the energy
  goes from 0.78 to 0.81 and the danceability from 0.9 to 0.95.
\<close>

theorem C3_second_call_differs:
  "(case resolve init ''happy'' ''13-17'' of
      Inl e \<Rightarrow> False
    | Inr r1 \<Rightarrow>
        features r1 = Ref (FeaturesRow ''happy'')
        \<and> init (FeaturesRow ''happy'') =
            [(''valence'', Finite 0.8), (''energy'', Finite 0.75), (''danceability'', Finite 0.85),
             (''acousticness'', Finite 0.15), (''tempo'', Finite 120)]
        \<and> heap r1 (FeaturesRow ''happy'') =
            [(''valence'', Finite 0.8), (''energy'', Finite 0.78), (''danceability'', Finite 0.9),
             (''acousticness'', Finite 0.15), (''tempo'', Finite 1)]
        \<and> resolved_output (Inr r1) =
            Inr (\<lparr>valence = Some (Finite 0.8), energy = Some (Finite 0.78),
                  danceability = Some (Finite 0.9), acousticness = Some (Finite 0.15),
                  tempo = Some (Finite 1)\<rparr>,
                 Genres ''pop,indie-pop,electro-pop'')
        \<and> resolved_output (resolve (heap r1) ''happy'' ''13-17'') =
            Inr (\<lparr>valence = Some (Finite 0.8), energy = Some (Finite 0.81),
                  danceability = Some (Finite 0.95), acousticness = Some (Finite 0.15),
                  tempo = Some (Finite 1)\<rparr>,
                 Genres ''pop,indie-pop,electro-pop''))"
  by code_simp

section \<open>Unknown moods and age groups\<close>

text \<open>
  Claim C4, as amended.  After any list of earlier calls, a mood string that lower-cases
  to none of the five table keys (and to none of \<^verbatim>\<open>constructor\<close>, \<^verbatim>\<open>__proto__\<close>) resolves,
  for every age group, to the same object, store and profile as \<^verbatim>\<open>"happy"\<close> does from the
  same store, and its genre seed list is the literal \<^verbatim>\<open>"pop"\<close>.
\<close>

theorem C4_unknown_mood_profile_of_happy:
  assumes "toLowerCase moodKey \<notin> {''happy'', ''energetic'', ''calm'', ''sad'', ''stressed''}"
    and "toLowerCase moodKey \<notin> {''constructor'', ''__proto__''}"
  shows "\<exists>r r'. resolve (run_calls init calls) moodKey ageGroup = Inr r
      \<and> resolve (run_calls init calls) ''happy'' ageGroup = Inr r'
      \<and> features r = features r' \<and> heap r = heap r'
      \<and> read_profile (heap r) (features r) = read_profile (heap r') (features r')
      \<and> genres r = Genres ''pop''"
proof -
  let ?h = "run_calls init calls"
  let ?a = "js_or (get_AGE_ADJUSTMENTS ?h ageGroup) (Ref EmptyLiteral)"
  note none = fallback_to_happy [OF assms]
  have inv: "store_inv ?h"
    by (rule reached_store_inv)
  have falsy: "\<not> truthy (inherited ?h (toLowerCase moodKey))"
    using inherited_falsy [OF inv none(3)] .
  have f: "js_or (get_MOOD_FEATURES ?h (toLowerCase moodKey)) (get_MOOD_FEATURES ?h ''happy'')
      = Ref (FeaturesRow ''happy'')"
    using falsy by (simp add: js_or_def happy_row) (simp add: get_MOOD_FEATURES_def none)
  have lc: "toLowerCase ''happy'' = ''happy''"
    by code_simp
  have f': "js_or (get_MOOD_FEATURES ?h (toLowerCase ''happy'')) (get_MOOD_FEATURES ?h ''happy'')
      = Ref (FeaturesRow ''happy'')"
    by (simp add: lc happy_row js_or_def)
  obtain ks where ks: "Object_keys ?h ?a = Inr ks"
    using Object_keys_defined [OF js_or_Ref_defined] by blast
  obtain h' bs where loop: "forEach (Ref (FeaturesRow ''happy'')) ?a ks ?h = Inr (h', bs)"
    using forEach_defined [of "Ref (FeaturesRow ''happy'')"] by blast
  have "h' ObjectPrototype = ?h ObjectPrototype"
    using forEach_frame [OF loop] by simp
  then have "inherited h' (toLowerCase moodKey) = inherited ?h (toLowerCase moodKey)"
    by (rule inherited_cong)
  with falsy have g: "genres_or (get_MOOD_GENRES h' (toLowerCase moodKey)) ''pop'' = Genres ''pop''"
    by (simp add: get_MOOD_GENRES_def none)
  show ?thesis
    by (simp add: resolve_def Let_def f f' ks loop g)
qed

text \<open>
  The theorem at the mood \<^verbatim>\<open>"Furious"\<close> and the age group \<^verbatim>\<open>"36-50"\<close>, after one call
  with \<^verbatim>\<open>"happy"\<close> and \<^verbatim>\<open>"13-17"\<close>.
\<close>

theorem C4_witness:
  "toLowerCase ''Furious'' \<notin> {''happy'', ''energetic'', ''calm'', ''sad'', ''stressed''}
   \<and> toLowerCase ''Furious'' \<notin> {''constructor'', ''__proto__''}
   \<and> (\<exists>r r'. resolve (run_calls init [(''happy'', Some ''13-17'')]) ''Furious'' ''36-50'' = Inr r
        \<and> resolve (run_calls init [(''happy'', Some ''13-17'')]) ''happy'' ''36-50'' = Inr r'
        \<and> read_profile (heap r) (features r) = read_profile (heap r') (features r')
        \<and> genres r = Genres ''pop'')"
proof -
  have 1: "toLowerCase ''Furious'' \<notin> {''happy'', ''energetic'', ''calm'', ''sad'', ''stressed''}"
    by code_simp
  have 2: "toLowerCase ''Furious'' \<notin> {''constructor'', ''__proto__''}"
    by code_simp
  show ?thesis
    using 1 2 C4_unknown_mood_profile_of_happy [OF 1 2, of "[(''happy'', Some ''13-17'')]" "''36-50''"]
    by blast
qed

text \<open>
  Claim C4 as stated, with the genre seed list part of the output, fails: \<^verbatim>\<open>"furious"\<close>
  gets the genres \<^verbatim>\<open>"pop"\<close> and \<^verbatim>\<open>"happy"\<close> gets \<^verbatim>\<open>"pop,indie-pop,electro-pop"\<close>.
\<close>

theorem C4_counterexample:
  "resolved_output (resolve init ''furious'' ''18-25'')
     \<noteq> resolved_output (resolve init ''happy'' ''18-25'')"
  by code_simp

text \<open>
  Claim C5, as amended.  An absent age-group argument behaves as \<^verbatim>\<open>"18-25"\<close>, in every
  store and for every mood.
\<close>

theorem C5_absent_age_group_is_18_25:
  "resolved_output (resolve h moodKey (ageGroup_default None)) =
     resolved_output (resolve h moodKey (ageGroup_default (Some ''18-25'')))
   \<and> getRecommendationsByMoodAndAge h moodKey None =
     getRecommendationsByMoodAndAge h moodKey (Some ''18-25'')"
  by (simp add: getRecommendationsByMoodAndAge_def)

text \<open>
  Claim C5 as stated also covers an unrecognized age group, and fails there: for
  \<^verbatim>\<open>"happy"\<close> the age group \<^verbatim>\<open>"90+"\<close> leaves the row as it is, while \<^verbatim>\<open>"18-25"\<close> adds 0.02
  to the danceability and clamps the tempo.
\<close>

theorem C5_counterexample:
  "resolved_output (resolve init ''happy'' (ageGroup_default (Some ''90+'')))
     \<noteq> resolved_output (resolve init ''happy'' (ageGroup_default (Some ''18-25'')))"
  by code_simp

text \<open>
  Claim C6.  An age-group string other than the five brackets should leave the base
  profile of the mood as it is.  The lookup of line 107 has no own-property guard: the
  age group \<^verbatim>\<open>"constructor"\<close> finds the inherited function \<^verbatim>\<open>Object\<close>, which is truthy, so the
  \<^verbatim>\<open>{}\<close> is not taken.  Once a call with the mood \<^verbatim>\<open>"constructor"\<close> and the age group
  \<^verbatim>\<open>"13-17"\<close> has stored \<^verbatim>\<open>Object.tempo = NaN\<close> (line 112), \<^verbatim>\<open>Object.keys\<close> of that function is
  \<^verbatim>\<open>["tempo"]\<close>, the loop runs for the mood \<^verbatim>\<open>"happy"\<close> and line 110 stores \<^verbatim>\<open>NaN\<close> over the
  tempo 120 of the row.
\<close>

theorem C6_inherited_age_group_adjusts:
  "(case resolve (run_calls init [(''constructor'', Some ''13-17'')]) ''happy'' ''constructor'' of
      Inl e \<Rightarrow> False
    | Inr r \<Rightarrow>
        run_calls init [(''constructor'', Some ''13-17'')] ObjectCtor = [(''tempo'', NaN)]
        \<and> read_profile (run_calls init [(''constructor'', Some ''13-17'')]) (features r) =
            \<lparr>valence = Some (Finite 0.8), energy = Some (Finite 0.75),
             danceability = Some (Finite 0.85), acousticness = Some (Finite 0.15),
             tempo = Some (Finite 120)\<rparr>
        \<and> trace r = [UnitClamp]
        \<and> read_profile (heap r) (features r) =
            \<lparr>valence = Some (Finite 0.8), energy = Some (Finite 0.75),
             danceability = Some (Finite 0.85), acousticness = Some (Finite 0.15),
             tempo = Some NaN\<rparr>)"
  by code_simp

text \<open>
  On the freshly loaded module no built-in object has an enumerable key yet, and every
  age-group string other than the five brackets leaves store and profile as they are.
\<close>

lemma fresh_module_unknown_age_group:
  assumes "ageGroup \<notin> {''13-17'', ''18-25'', ''26-35'', ''36-50'', ''50+''}"
  shows "\<exists>r. resolve init moodKey ageGroup = Inr r
      \<and> heap r = init \<and> trace r = []
      \<and> features r =
          js_or (get_MOOD_FEATURES init (toLowerCase moodKey)) (get_MOOD_FEATURES init ''happy'')
      \<and> read_profile (heap r) (features r) =
          read_profile init
            (js_or (get_MOOD_FEATURES init (toLowerCase moodKey)) (get_MOOD_FEATURES init ''happy''))"
proof -
  have "Object_keys init (js_or (get_AGE_ADJUSTMENTS init ageGroup) (Ref EmptyLiteral)) = Inr []"
    using assms by (intro unknown_age_no_keys unknown_age_group)
  then show ?thesis
    by (simp add: resolve_def Let_def)
qed

section \<open>The scenario of the specification\<close>

text \<open>
  Claim C7.  The specification expects mood \<^verbatim>\<open>"sad"\<close> with age group \<^verbatim>\<open>"13-17"\<close> to give
  valence 0.2, energy 0.28, danceability 0.3, acousticness 0.8, tempo 70 and the genres
  \<^verbatim>\<open>"indie,alternative,folk"\<close>.  The code gives all of these but the tempo: the row owns
  \<^verbatim>\<open>tempo\<close>, so line 110 clamps 60 + 10 into the unit interval and the tempo is 1.
\<close>

theorem C7_sad_13_17_tempo_is_one:
  "resolved_output (resolve init ''sad'' ''13-17'') =
    Inr (\<lparr>valence = Some (Finite 0.2), energy = Some (Finite 0.28),
          danceability = Some (Finite 0.3), acousticness = Some (Finite 0.8),
          tempo = Some (Finite 1)\<rparr>,
         Genres ''indie,alternative,folk'')"
  by code_simp

section \<open>The query parameters of an inherited key\<close>

text \<open>
  Claim C8.  Every mood string should be serialized into the six query parameters.  The
  mood \<^verbatim>\<open>"constructor"\<close> is no key of \<^verbatim>\<open>MOOD_FEATURES\<close>, but the lookup of line 104 finds the
  inherited \<^verbatim>\<open>Object.prototype.constructor\<close>, which is truthy, so the fallback to
  \<^verbatim>\<open>"happy"\<close> is not taken: \<^verbatim>\<open>features\<close> is the function \<^verbatim>\<open>Object\<close>, \<^verbatim>\<open>features.valence\<close> is
  \<^verbatim>\<open>undefined\<close> and line 123 throws a TypeError.
\<close>

theorem C8_constructor_throws:
  "(case resolve init ''constructor'' ''18-25'' of
      Inl e \<Rightarrow> False
    | Inr r \<Rightarrow>
        features r = Ref ObjectCtor
        \<and> valence (read_profile (heap r) (features r)) = None)
   \<and> (case getRecommendationsByMoodAndAge init ''constructor'' (Some ''18-25'') of
        Inl e \<Rightarrow> e = TypeError
      | Inr p \<Rightarrow> False)"
  by code_simp

section \<open>Totality of the resolver\<close>

text \<open>
  Claim C9.  In every store, for every mood string and every age group, given or absent,
  lines 104 to 117 return: no lookup and no loop iteration throws.
\<close>

theorem C9_resolver_never_throws:
  "\<exists>r. resolve h moodKey (ageGroup_default ageGroup) = Inr r"
proof -
  let ?f = "js_or (get_MOOD_FEATURES h (toLowerCase moodKey)) (get_MOOD_FEATURES h ''happy'')"
  let ?a = "js_or (get_AGE_ADJUSTMENTS h (ageGroup_default ageGroup)) (Ref EmptyLiteral)"
  have f: "?f \<noteq> Undefined"
    by (simp add: happy_row js_or_Ref_defined)
  have a: "?a \<noteq> Undefined"
    by (rule js_or_Ref_defined)
  obtain ks where ks: "Object_keys h ?a = Inr ks"
    using Object_keys_defined [OF a] by blast
  obtain h' bs where loop: "forEach ?f ?a ks h = Inr (h', bs)"
    using forEach_defined [OF f] by blast
  show ?thesis
    by (simp add: resolve_def Let_def ks loop)
qed

section \<open>The branch taken by the tempo key\<close>

text \<open>
  Claim C10.  Every base profile record owns \<^verbatim>\<open>tempo\<close>, so the \<^verbatim>\<open>hasOwnProperty\<close> branch of
  line 109 takes the tempo key.  After any list of earlier calls, for every mood that has
  a base profile record (every string that does not lower-case to \<^verbatim>\<open>constructor\<close> or
  \<^verbatim>\<open>__proto__\<close>, which have none) and every age bracket whose record has a tempo delta, the
  resolved tempo is the tempo the record holds when the call starts plus the delta,
  clamped into the unit interval, and the floor-at-50 branch of line 112 does not run.
\<close>

theorem C10_tempo_takes_unit_clamp:
  assumes "toLowerCase moodKey \<notin> {''constructor'', ''__proto__''}"
    and "map_of AGE_ADJUSTMENTS ageGroup = Some adj"
    and "map_of adj ''tempo'' = Some delta"
  shows "\<exists>r m base. resolve (run_calls init calls) moodKey ageGroup = Inr r
      \<and> features r = Ref (FeaturesRow m) \<and> m \<in> set (map fst MOOD_FEATURES)
      \<and> tempo (read_profile (run_calls init calls) (features r)) = Some base
      \<and> tempo (read_profile (heap r) (features r)) =
          Some (Math_max (Finite 0) (Math_min (Finite 1) (plus_num base delta)))
      \<and> TempoFloor \<notin> set (trace r)"
proof -
  let ?h = "run_calls init calls"
  have inv: "store_inv ?h"
    by (rule reached_store_inv)
  obtain m where f: "js_or (get_MOOD_FEATURES ?h (toLowerCase moodKey))
      (get_MOOD_FEATURES ?h ''happy'') = Ref (FeaturesRow m)"
    and m: "m \<in> set (map fst MOOD_FEATURES)"
    using base_is_row_reached [OF inv assms(1)] by blast
  have a: "js_or (get_AGE_ADJUSTMENTS ?h ageGroup) (Ref EmptyLiteral) = Ref (AdjustRow ageGroup)"
    using assms(2) by (simp add: get_AGE_ADJUSTMENTS_def js_or_def)
  have ag: "ageGroup \<in> set (map fst AGE_ADJUSTMENTS)"
    using assms(2) by (metis map_of_SomeD image_eqI set_map fst_conv)
  have adj: "?h (AdjustRow ageGroup) = init (AdjustRow ageGroup)"
    using inv by (simp add: store_inv_def)
  have "map fst (?h (FeaturesRow m)) = feature_names"
    using inv m by (auto simp: store_inv_def)
  then obtain v e d ac t where row: "?h (FeaturesRow m) =
      [(''valence'', v), (''energy'', e), (''danceability'', d), (''acousticness'', ac), (''tempo'', t)]"
    using row_shape by blast
  have delta: "map_of (init (AdjustRow ageGroup)) ''tempo'' = Some delta"
    by (simp add: init_def assms(2,3))
  obtain h' bs where
    loop: "forEach (Ref (FeaturesRow m)) (Ref (AdjustRow ageGroup))
        (map fst (?h (AdjustRow ageGroup))) ?h = Inr (h', bs)"
    and tr: "TempoFloor \<notin> set bs"
    and t: "field h' (Ref (FeaturesRow m)) ''tempo'' =
        Some (Math_max (Finite 0) (Math_min (Finite 1) (plus_num t delta)))"
    using rows_loop_reached [OF row adj ag] by (auto simp: delta simp del: field.simps)
  have base: "field ?h (Ref (FeaturesRow m)) ''tempo'' = Some t"
    by (simp add: row)
  have ks: "Object_keys ?h (Ref (AdjustRow ageGroup)) = Inr (map fst (?h (AdjustRow ageGroup)))"
    by simp
  have "resolve ?h moodKey ageGroup =
      Inr \<lparr>features = Ref (FeaturesRow m),
           genres = genres_or (get_MOOD_GENRES h' (toLowerCase moodKey)) ''pop'',
           heap = h', trace = bs\<rparr>"
    by (simp only: resolve_def Let_def f a ks loop sum.case prod.case)
  then show ?thesis
    using m tr t base by (simp add: read_profile_def del: field.simps)
qed

text \<open>
  The theorem at the mood \<^verbatim>\<open>"Calm"\<close> and the age group \<^verbatim>\<open>"50+"\<close>, after one call with
  \<^verbatim>\<open>"calm"\<close> and \<^verbatim>\<open>"50+"\<close>.
\<close>

theorem C10_witness:
  "toLowerCase ''Calm'' \<notin> {''constructor'', ''__proto__''}
   \<and> map_of AGE_ADJUSTMENTS ''50+'' =
       Some [(''acousticness'', Finite 0.08), (''tempo'', Finite (- 15)), (''energy'', Finite (- 0.1))]
   \<and> map_of [(''acousticness'', Finite 0.08), (''tempo'', Finite (- 15)), (''energy'', Finite (- 0.1))]
       ''tempo'' = Some (Finite (- 15))
   \<and> (\<exists>r m base. resolve (run_calls init [(''calm'', Some ''50+'')]) ''Calm'' ''50+'' = Inr r
      \<and> features r = Ref (FeaturesRow m) \<and> m \<in> set (map fst MOOD_FEATURES)
      \<and> tempo (read_profile (run_calls init [(''calm'', Some ''50+'')]) (features r)) = Some base
      \<and> tempo (read_profile (heap r) (features r)) =
          Some (Math_max (Finite 0) (Math_min (Finite 1) (plus_num base (Finite (- 15)))))
      \<and> TempoFloor \<notin> set (trace r))"
proof -
  have 1: "toLowerCase ''Calm'' \<notin> {''constructor'', ''__proto__''}"
    by code_simp
  have 2: "map_of AGE_ADJUSTMENTS ''50+'' =
       Some [(''acousticness'', Finite 0.08), (''tempo'', Finite (- 15)), (''energy'', Finite (- 0.1))]"
    by (simp add: AGE_ADJUSTMENTS_def)
  have 3: "map_of [(''acousticness'', Finite 0.08), (''tempo'', Finite (- 15)), (''energy'', Finite (- 0.1))]
       ''tempo'' = Some (Finite (- 15))"
    by simp
  show ?thesis
    using 1 2 3 C10_tempo_takes_unit_clamp [OF 1 2 3, of "[(''calm'', Some ''50+'')]"] by blast
qed

text \<open>
  On the freshly loaded module the record holds the literal of the table, for each of the
  twenty-five pairs.
\<close>

lemma fresh_module_tempo_unit_clamp:
  assumes "toLowerCase moodKey \<notin> {''constructor'', ''__proto__''}"
    and "map_of AGE_ADJUSTMENTS ageGroup = Some adj"
    and "map_of adj ''tempo'' = Some delta"
  shows "\<exists>r m row base. resolve init moodKey ageGroup = Inr r
      \<and> features r = Ref (FeaturesRow m)
      \<and> map_of MOOD_FEATURES m = Some row \<and> map_of row ''tempo'' = Some base
      \<and> tempo (read_profile (heap r) (features r)) =
          Some (Math_max (Finite 0) (Math_min (Finite 1) (plus_num base delta)))
      \<and> TempoFloor \<notin> set (trace r)"
proof -
  obtain m row where f: "js_or (get_MOOD_FEATURES init (toLowerCase moodKey))
      (get_MOOD_FEATURES init ''happy'') = Ref (FeaturesRow m)"
    and row: "map_of MOOD_FEATURES m = Some row"
    using base_is_row [OF assms(1)] by blast
  have a: "js_or (get_AGE_ADJUSTMENTS init ageGroup) (Ref EmptyLiteral) = Ref (AdjustRow ageGroup)"
    using assms(2) by (simp add: get_AGE_ADJUSTMENTS_def js_or_def)
  have m: "m \<in> set (map fst MOOD_FEATURES)"
    using row by (metis map_of_SomeD image_eqI set_map fst_conv)
  have ag: "ageGroup \<in> set (map fst AGE_ADJUSTMENTS)"
    using assms(2) by (metis map_of_SomeD image_eqI set_map fst_conv)
  obtain h' bs where
    loop: "forEach (Ref (FeaturesRow m)) (Ref (AdjustRow ageGroup))
        (map fst (init (AdjustRow ageGroup))) init = Inr (h', bs)"
    and tr: "TempoFloor \<notin> set bs"
    and t: "field h' (Ref (FeaturesRow m)) ''tempo'' =
        Some (Math_max (Finite 0) (Math_min (Finite 1)
          (plus_num (ToNumber (field init (Ref (FeaturesRow m)) ''tempo''))
             (ToNumber (field init (Ref (AdjustRow ageGroup)) ''tempo'')))))"
    using rows_loop m ag by (fastforce split: sum.splits)
  have "\<exists>base. map_of row ''tempo'' = Some base"
    using row by (auto simp: MOOD_FEATURES_def split: if_splits)
  then obtain base where base: "map_of row ''tempo'' = Some base" ..
  have fb: "field init (Ref (FeaturesRow m)) ''tempo'' = Some base"
    by (simp add: init_def row base)
  have fd: "field init (Ref (AdjustRow ageGroup)) ''tempo'' = Some delta"
    by (simp add: init_def assms(2,3))
  have t': "field h' (Ref (FeaturesRow m)) ''tempo'' =
      Some (Math_max (Finite 0) (Math_min (Finite 1) (plus_num base delta)))"
    by (simp only: t fb fd ToNumber.simps)
  have ks: "Object_keys init (Ref (AdjustRow ageGroup)) = Inr (map fst (init (AdjustRow ageGroup)))"
    by simp
  have "resolve init moodKey ageGroup =
      Inr \<lparr>features = Ref (FeaturesRow m),
           genres = genres_or (get_MOOD_GENRES h' (toLowerCase moodKey)) ''pop'',
           heap = h', trace = bs\<rparr>"
    by (simp only: resolve_def Let_def f a ks loop sum.case prod.case)
  then show ?thesis
    using row base tr t' by (simp add: read_profile_def del: field.simps)
qed

text \<open>
  The mood \<^verbatim>\<open>"constructor"\<close> has no base profile record: line 104 yields the function
  \<^verbatim>\<open>Object\<close>, which owns no \<^verbatim>\<open>tempo\<close>, so for it the floor-at-50 branch runs and stores
  \<^verbatim>\<open>NaN\<close>.
\<close>

lemma constructor_takes_floor_branch:
  "(case resolve init ''constructor'' ''13-17'' of
      Inl e \<Rightarrow> False
    | Inr r \<Rightarrow>
        features r = Ref ObjectCtor
        \<and> trace r = [NoBranch, TempoFloor, NoBranch]
        \<and> tempo (read_profile (heap r) (features r)) = Some NaN)"
  by code_simp

end
